theory Spec2Isabelle
  imports Complex_Main
begin

section \<open>The inverse-kinematics notebook\<close>

text \<open>
  The notebook \<^verbatim>\<open>drake_MP_tutorial.ipynb\<close> (and its copy without recorded
  outputs) is a straight-line script over an external multibody library. What the script
  itself computes is small: it slices the translation column out of a \<open>4 \<times> 4\<close> transform,
  shifts it by a tolerance in both directions and hands the two bounds, the two frames and
  the zero query point to \<^verbatim>\<open>AddPositionConstraint\<close>.

  Vectors are numpy arrays of scalars, modelled as lists; a matrix is the list of its rows.
  The scalar type is left open: the definitions only need \<open>0\<close>, \<open>+\<close>, \<open>-\<close> and \<open>\<le>\<close>.
  Frames, the plant and the decision variables are handles of the library and stay abstract.
\<close>

subsection \<open>numpy expressions used by the script\<close>

text \<open>\<^verbatim>\<open>np.zeros(n)\<close>\<close>

definition np_zeros :: "nat \<Rightarrow> 'a::zero list" where
  "np_zeros n = replicate n 0"

text \<open>\<^verbatim>\<open>v - s\<close> and \<^verbatim>\<open>v + s\<close> for an array \<open>v\<close> and a scalar \<open>s\<close>: the scalar is broadcast.\<close>

definition np_sub_scalar :: "'a::minus list \<Rightarrow> 'a \<Rightarrow> 'a list" where
  "np_sub_scalar v s = map (\<lambda>x. x - s) v"

definition np_add_scalar :: "'a::plus list \<Rightarrow> 'a \<Rightarrow> 'a list" where
  "np_add_scalar v s = map (\<lambda>x. x + s) v"

text \<open>\<^verbatim>\<open>T[:3, 3]\<close>: column 3 of the first three rows.\<close>

definition slice_3_3 :: "'a list list \<Rightarrow> 'a list" where
  "slice_3_3 T = map (\<lambda>row. row ! 3) (take 3 T)"

subsection \<open>The inverse-kinematics object\<close>

text \<open>
  One call of \<^verbatim>\<open>AddPositionConstraint(frameB, p_BQ, frameA, p_AQ_lower, p_AQ_upper)\<close>,
  with the keyword arguments of the call as fields: the point \<open>Q\<close> is fixed in frame \<open>B\<close>
  at \<open>p_BQ\<close>, and its position measured in frame \<open>A\<close> is bounded by the two vectors.
\<close>

record ('frame, 'a) position_constraint =
  frameB :: 'frame
  p_BQ :: "'a list"
  frameA :: 'frame
  p_AQ_lower :: "'a list"
  p_AQ_upper :: "'a list"

text \<open>
  The object \<^verbatim>\<open>ik = InverseKinematics(plant)\<close>: \<^verbatim>\<open>ik.q()\<close> are the decision
  variables of its program (the joint positions of the plant), and the program
  \<^verbatim>\<open>ik.prog()\<close> collects the position constraints added through the object. Whatever
  else the library keeps in the object (the plant, constraints the constructor adds) is the
  extension part of the record and is carried along untouched.
\<close>

record ('var, 'frame, 'a) inverse_kinematics =
  ik_q :: "'var list"
  ik_position_constraints :: "('frame, 'a) position_constraint list"

definition AddPositionConstraint ::
  "('var, 'frame, 'a, 'z) inverse_kinematics_scheme \<Rightarrow> 'frame \<Rightarrow> 'a list \<Rightarrow> 'frame \<Rightarrow>
     'a list \<Rightarrow> 'a list \<Rightarrow> ('var, 'frame, 'a, 'z) inverse_kinematics_scheme" where
  "AddPositionConstraint ik fB pBQ fA lower upper =
     ik\<lparr>ik_position_constraints := ik_position_constraints ik @
        [\<lparr>frameB = fB, p_BQ = pBQ, frameA = fA, p_AQ_lower = lower, p_AQ_upper = upper\<rparr>]\<rparr>"

text \<open>
  A position \<open>p\<close> lies in the box of a constraint when it is between the two bounds in
  every component.
\<close>

definition within_box :: "('frame, 'a::ord) position_constraint \<Rightarrow> 'a list \<Rightarrow> bool" where
  "within_box c p \<longleftrightarrow> list_all2 (\<le>) (p_AQ_lower c) p \<and> list_all2 (\<le>) p (p_AQ_upper c)"

subsection \<open>Forward kinematics\<close>

text \<open>
  The methods of the library's plant that \<^verbatim>\<open>compute_forward_kinematics\<close> calls. Their
  code is not part of the repository, so they are parameters. Each call either raises
  (\<open>Inl\<close>) or returns (\<open>Inr\<close>). \<^verbatim>\<open>SetPositions\<close> writes into the context it is given,
  so it returns the context after the call.
\<close>

record ('plant, 'ctx, 'frame, 'xf, 'a, 'e) multibody_library =
  CreateDefaultContext :: "'plant \<Rightarrow> 'e + 'ctx"
  SetPositions :: "'plant \<Rightarrow> 'ctx \<Rightarrow> 'a list \<Rightarrow> 'e + 'ctx"
  CalcRelativeTransform :: "'plant \<Rightarrow> 'ctx \<Rightarrow> 'frame \<Rightarrow> 'frame \<Rightarrow> 'e + 'xf"
  matrix :: "'xf \<Rightarrow> 'e + 'a list list"

text \<open>
  \<^verbatim>\<open>
  def compute_forward_kinematics(plant, q):
      context = plant.CreateDefaultContext()
      plant.SetPositions(context, q)
      T_W_EE = plant.CalcRelativeTransform(context, frame_A=world_frame, frame_B=ee_frame)
      return T_W_EE.matrix()
  \<close>
  The function reads the globals \<^verbatim>\<open>world_frame\<close> and \<^verbatim>\<open>ee_frame\<close>; its
  \<^verbatim>\<open>context\<close> is a local variable, a fresh context on every call. There is no
  \<^verbatim>\<open>try\<close>: an exception of a library call leaves the function as it is.
\<close>

definition compute_forward_kinematics ::
  "('plant, 'ctx, 'frame, 'xf, 'a, 'e) multibody_library \<Rightarrow> 'frame \<Rightarrow> 'frame \<Rightarrow>
     'plant \<Rightarrow> 'a list \<Rightarrow> 'e + 'a list list" where
  "compute_forward_kinematics lib world_frame ee_frame plant q =
     (case CreateDefaultContext lib plant of
        Inl e \<Rightarrow> Inl e
      | Inr context \<Rightarrow>
          (case SetPositions lib plant context q of
             Inl e \<Rightarrow> Inl e
           | Inr context' \<Rightarrow>
               (case CalcRelativeTransform lib plant context' world_frame ee_frame of
                  Inl e \<Rightarrow> Inl e
                | Inr T_W_EE \<Rightarrow> matrix lib T_W_EE)))"

text \<open>
  The position of the end-effector origin at a configuration lies in the box of a
  constraint: forward kinematics returns at the configuration and the translation column
  of its transform is within the bounds.
\<close>

definition fk_position_within ::
  "('plant, 'ctx, 'frame, 'xf, 'a::ord, 'e) multibody_library \<Rightarrow> 'frame \<Rightarrow> 'frame \<Rightarrow> 'plant \<Rightarrow>
     ('frame, 'a) position_constraint \<Rightarrow> 'a list \<Rightarrow> bool" where
  "fk_position_within lib world_frame ee_frame plant c q \<longleftrightarrow>
     (case compute_forward_kinematics lib world_frame ee_frame plant q of
        Inl e \<Rightarrow> False
      | Inr T \<Rightarrow> within_box c (slice_3_3 T))"

subsection \<open>Setting up the IK program\<close>

text \<open>
  The cell ``Setup IK program'' up to the call of the solver:
  \<^verbatim>\<open>
  ik = InverseKinematics(plant)
  q_vars = ik.q() # variables in optimization problem
  mp = ik.prog() # mathematical program object
  pos_tol = 1e-3
  p_WF = T_W_E[:3, 3]
  F = ee_frame
  W = world_frame
  ik.AddPositionConstraint(
              frameB=F, p_BQ=np.zeros(3),
              frameA=W, p_AQ_lower=p_WF - pos_tol, p_AQ_upper=p_WF + pos_tol)
  \<close>
  The constructor of the library is a parameter. The target \<open>p_WF\<close> and the tolerance
  \<open>pos_tol\<close> are arguments of \<open>ik_program\<close>; \<open>setup_ik_cell\<close> takes the target from the
  transform as the cell does. The result is the pair of \<open>q_vars\<close> and the object after the
  call: \<^verbatim>\<open>mp\<close> is a reference to the program of that object, so the solver sees the
  constraint although \<^verbatim>\<open>mp\<close> was bound before it was added.
\<close>

definition ik_program ::
  "('plant \<Rightarrow> ('var, 'frame, 'a, 'z) inverse_kinematics_scheme) \<Rightarrow> 'plant \<Rightarrow> 'frame \<Rightarrow> 'frame \<Rightarrow>
     'a::{zero,plus,minus} list \<Rightarrow> 'a \<Rightarrow>
     'var list \<times> ('var, 'frame, 'a, 'z) inverse_kinematics_scheme" where
  "ik_program InverseKinematics plant ee_frame world_frame p_WF pos_tol =
     (let ik = InverseKinematics plant;
          q_vars = ik_q ik;
          F = ee_frame;
          W = world_frame
      in (q_vars,
          AddPositionConstraint ik F (np_zeros 3) W
            (np_sub_scalar p_WF pos_tol) (np_add_scalar p_WF pos_tol)))"

definition setup_ik_cell ::
  "('plant \<Rightarrow> ('var, 'frame, 'a, 'z) inverse_kinematics_scheme) \<Rightarrow> 'plant \<Rightarrow> 'frame \<Rightarrow> 'frame \<Rightarrow>
     'a::{zero,plus,minus} list list \<Rightarrow> 'a \<Rightarrow>
     'var list \<times> ('var, 'frame, 'a, 'z) inverse_kinematics_scheme" where
  "setup_ik_cell InverseKinematics plant ee_frame world_frame T_W_E pos_tol =
     ik_program InverseKinematics plant ee_frame world_frame (slice_3_3 T_W_E) pos_tol"

section \<open>The mathematical-program notebook\<close>

text \<open>
  The symbolic expressions and formulas the cells build from decision variables with the
  overloaded operators of the library (\<^verbatim>\<open>x[0]*1.0\<close>, \<^verbatim>\<open>(x[0]-3)**2\<close>,
  \<^verbatim>\<open>x[0] >= 1\<close>, \<^verbatim>\<open>x[0]**2 + x[1]**2 == 1.0\<close>). Python floats are read as reals.
\<close>

datatype expr =
    Var nat
  | Num real
  | Add expr expr
  | Sub expr expr
  | Mul expr expr
  | Pow expr nat

datatype formula =
    GreaterEq expr expr
  | LessEq expr expr
  | Equal expr expr

text \<open>
  A \<^verbatim>\<open>MathematicalProgram\<close> as the cells fill it: the number of decision variables,
  the cost terms (the program minimises their sum), the constraints and the initial guess.
  Each method of the builder changes the program, so it returns the changed program.
\<close>

record program =
  n_vars :: nat
  costs :: "expr list"
  constraints :: "formula list"
  initial_guess :: "real list option"

definition MathematicalProgram :: program where
  "MathematicalProgram = \<lparr>n_vars = 0, costs = [], constraints = [], initial_guess = None\<rparr>"

definition NewContinuousVariables :: "nat \<Rightarrow> program \<Rightarrow> expr list \<times> program" where
  "NewContinuousVariables n mp =
     (map Var [n_vars mp ..< n_vars mp + n], mp\<lparr>n_vars := n_vars mp + n\<rparr>)"

definition AddLinearCost :: "expr \<Rightarrow> program \<Rightarrow> program" where
  "AddLinearCost e mp = mp\<lparr>costs := costs mp @ [e]\<rparr>"

definition AddQuadraticCost :: "expr \<Rightarrow> program \<Rightarrow> program" where
  "AddQuadraticCost e mp = mp\<lparr>costs := costs mp @ [e]\<rparr>"

definition AddLinearConstraint :: "formula \<Rightarrow> program \<Rightarrow> program" where
  "AddLinearConstraint f mp = mp\<lparr>constraints := constraints mp @ [f]\<rparr>"

definition AddConstraint :: "formula \<Rightarrow> program \<Rightarrow> program" where
  "AddConstraint f mp = mp\<lparr>constraints := constraints mp @ [f]\<rparr>"

definition SetInitialGuessForAllVariables :: "real list \<Rightarrow> program \<Rightarrow> program" where
  "SetInitialGuessForAllVariables g mp = mp\<lparr>initial_guess := Some g\<rparr>"

text \<open>\<^verbatim>\<open>x.sum()\<close> on an array of expressions: the elements added from left to right.\<close>

fun np_sum :: "expr list \<Rightarrow> expr" where
  "np_sum [] = Num 0"
| "np_sum (e # es) = foldl Add e es"

subsection \<open>The programs of the cells\<close>

text \<open>
  Each definition is one cell up to its call of the solver. The solvers are external
  programs and are not modelled.
  \<^verbatim>\<open>
  mp = MathematicalProgram()
  x = mp.NewContinuousVariables(1, "x")
  mp.AddLinearCost(x[0]*1.0)
  mp.AddLinearConstraint(x[0] >= 1)
  \<close>
\<close>

definition lp_cell :: program where
  "lp_cell =
     (let mp = MathematicalProgram;
          (x, mp) = NewContinuousVariables 1 mp;
          mp = AddLinearCost (Mul (x ! 0) (Num 1)) mp;
          mp = AddLinearConstraint (GreaterEq (x ! 0) (Num 1)) mp
      in mp)"

text \<open>The next cell builds the same program again and hands it to \<^verbatim>\<open>IpoptSolver\<close>.\<close>

definition lp_ipopt_cell :: program where
  "lp_ipopt_cell =
     (let mp = MathematicalProgram;
          (x, mp) = NewContinuousVariables 1 mp;
          mp = AddLinearCost (Mul (x ! 0) (Num 1)) mp;
          mp = AddLinearConstraint (GreaterEq (x ! 0) (Num 1)) mp
      in mp)"

text \<open>The two cells ``written down slightly incorrectly'': no constraint, and \<^verbatim>\<open>x[0] <= 1\<close>.\<close>

definition lp_unconstrained_cell :: program where
  "lp_unconstrained_cell =
     (let mp = MathematicalProgram;
          (x, mp) = NewContinuousVariables 1 mp;
          mp = AddLinearCost (Mul (x ! 0) (Num 1)) mp
      in mp)"

definition lp_upper_bound_cell :: program where
  "lp_upper_bound_cell =
     (let mp = MathematicalProgram;
          (x, mp) = NewContinuousVariables 1 mp;
          mp = AddLinearCost (Mul (x ! 0) (Num 1)) mp;
          mp = AddLinearConstraint (LessEq (x ! 0) (Num 1)) mp
      in mp)"

text \<open>\<^verbatim>\<open>mp.AddQuadraticCost((x[0]-3)**2)\<close>, no constraint.\<close>

definition qp_cell :: program where
  "qp_cell =
     (let mp = MathematicalProgram;
          (x, mp) = NewContinuousVariables 1 mp;
          mp = AddQuadraticCost (Pow (Sub (x ! 0) (Num 3)) 2) mp
      in mp)"

text \<open>
  \<^verbatim>\<open>
  mp.AddConstraint((x[0]**2 + x[1]**2) == 1.0)
  mp.AddLinearCost(x.sum())
  mp.SetInitialGuessForAllVariables(np.array([-0.5,-0.5]))
  \<close>
\<close>

definition nlp_cell :: program where
  "nlp_cell =
     (let mp = MathematicalProgram;
          (x, mp) = NewContinuousVariables 2 mp;
          mp = AddConstraint (Equal (Add (Pow (x ! 0) 2) (Pow (x ! 1) 2)) (Num 1)) mp;
          mp = AddLinearCost (np_sum x) mp;
          mp = SetInitialGuessForAllVariables [- (1/2), - (1/2)] mp
      in mp)"

subsection \<open>What a program means\<close>

text \<open>
  The value of an expression and the truth of a formula at a point, the feasible points
  of a program, its objective, its minima, and a program whose objective has no lower
  bound on the feasible points.
\<close>

fun evaluate :: "real list \<Rightarrow> expr \<Rightarrow> real" where
  "evaluate v (Var i) = v ! i"
| "evaluate v (Num c) = c"
| "evaluate v (Add a b) = evaluate v a + evaluate v b"
| "evaluate v (Sub a b) = evaluate v a - evaluate v b"
| "evaluate v (Mul a b) = evaluate v a * evaluate v b"
| "evaluate v (Pow a n) = evaluate v a ^ n"

fun holds :: "real list \<Rightarrow> formula \<Rightarrow> bool" where
  "holds v (GreaterEq a b) \<longleftrightarrow> evaluate v a \<ge> evaluate v b"
| "holds v (LessEq a b) \<longleftrightarrow> evaluate v a \<le> evaluate v b"
| "holds v (Equal a b) \<longleftrightarrow> evaluate v a = evaluate v b"

definition feasible :: "program \<Rightarrow> real list \<Rightarrow> bool" where
  "feasible mp v \<longleftrightarrow> length v = n_vars mp \<and> list_all (holds v) (constraints mp)"

definition objective :: "program \<Rightarrow> real list \<Rightarrow> real" where
  "objective mp v = sum_list (map (evaluate v) (costs mp))"

definition is_minimum :: "program \<Rightarrow> real list \<Rightarrow> bool" where
  "is_minimum mp v \<longleftrightarrow> feasible mp v \<and> (\<forall>w. feasible mp w \<longrightarrow> objective mp v \<le> objective mp w)"

definition unbounded_below :: "program \<Rightarrow> bool" where
  "unbounded_below mp \<longleftrightarrow> (\<forall>M. \<exists>v. feasible mp v \<and> objective mp v < M)"

section \<open>Properties of the IK set-up\<close>

lemma length_slice_3_3: "3 \<le> length T \<Longrightarrow> length (slice_3_3 T) = 3"
  by (simp add: slice_3_3_def)

lemma nth_slice_3_3: "3 \<le> length T \<Longrightarrow> i < 3 \<Longrightarrow> slice_3_3 T ! i = T ! i ! 3"
  by (simp add: slice_3_3_def)

lemma within_box_nth:
  assumes "length lo = n" "length hi = n" "length p = n"
  shows "within_box \<lparr>frameB = fB, p_BQ = z, frameA = fA, p_AQ_lower = lo, p_AQ_upper = hi\<rparr> p
           \<longleftrightarrow> (\<forall>i<n. lo ! i \<le> p ! i \<and> p ! i \<le> hi ! i)"
  using assms by (auto simp: within_box_def list_all2_conv_all_nth)

text \<open>
  Claim C7. For every target position \<open>p_WF\<close> (a 3-vector) and every tolerance
  \<open>pos_tol \<ge> 0\<close>, setting up the IK program gives a program whose decision variables are
  the joint-position variables \<open>ik.q()\<close> of the IK object, unchanged by the set-up; exactly
  one position constraint is added and nothing else of the object changes; the constraint
  bounds the position, measured in the world frame, of the point of the end-effector
  frame with body coordinates \<open>(0, 0, 0)\<close>; its bounds are \<open>p_WF - pos_tol\<close> and
  \<open>p_WF + pos_tol\<close> componentwise, so a position lies in the box exactly when each of its
  components is within \<open>pos_tol\<close> of the target's; and the target itself lies in the box.
\<close>

theorem ik_program_position_box:
  fixes pos_tol :: "'a::linordered_ab_group_add"
    and InverseKinematics :: "'plant \<Rightarrow> ('var, 'frame, 'a, 'z) inverse_kinematics_scheme"
    and plant :: 'plant and ee_frame world_frame :: 'frame and p_WF :: "'a list"
  assumes tol: "0 \<le> pos_tol" and len: "length p_WF = 3"
  defines "R \<equiv> ik_program InverseKinematics plant ee_frame world_frame p_WF pos_tol"
  defines "ik0 \<equiv> InverseKinematics plant"
  shows "fst R = ik_q ik0
       \<and> ik_q (snd R) = ik_q ik0
       \<and> inverse_kinematics.more (snd R) = inverse_kinematics.more ik0
       \<and> ik_position_constraints (snd R) = ik_position_constraints ik0 @
           [\<lparr>frameB = ee_frame, p_BQ = [0, 0, 0], frameA = world_frame,
             p_AQ_lower = [p_WF ! 0 - pos_tol, p_WF ! 1 - pos_tol, p_WF ! 2 - pos_tol],
             p_AQ_upper = [p_WF ! 0 + pos_tol, p_WF ! 1 + pos_tol, p_WF ! 2 + pos_tol]\<rparr>]
       \<and> (\<forall>p. length p = 3 \<longrightarrow>
             (within_box (last (ik_position_constraints (snd R))) p \<longleftrightarrow>
                (\<forall>i<3. p_WF ! i - pos_tol \<le> p ! i \<and> p ! i \<le> p_WF ! i + pos_tol)))
       \<and> within_box (last (ik_position_constraints (snd R))) p_WF"
proof -
  obtain a b c where p: "p_WF = [a, b, c]"
    using len by (auto simp: length_Suc_conv numeral_3_eq_3)
  have zeros: "np_zeros 3 = [0::'a, 0, 0]"
    by (simp add: np_zeros_def numeral_3_eq_3)
  let ?c = "\<lparr>frameB = ee_frame, p_BQ = [0::'a, 0, 0], frameA = world_frame,
             p_AQ_lower = [a - pos_tol, b - pos_tol, c - pos_tol],
             p_AQ_upper = [a + pos_tol, b + pos_tol, c + pos_tol]\<rparr>"
  have R: "R = (ik_q ik0, ik0\<lparr>ik_position_constraints := ik_position_constraints ik0 @ [?c]\<rparr>)"
    by (simp add: R_def ik0_def ik_program_def AddPositionConstraint_def zeros p Let_def
        np_sub_scalar_def np_add_scalar_def)
  have box: "within_box ?c q \<longleftrightarrow>
      (\<forall>i<3. [a, b, c] ! i - pos_tol \<le> q ! i \<and> q ! i \<le> [a, b, c] ! i + pos_tol)"
    if "length q = 3" for q
  proof -
    have "within_box ?c q \<longleftrightarrow>
      (\<forall>i<3. [a - pos_tol, b - pos_tol, c - pos_tol] ! i \<le> q ! i
            \<and> q ! i \<le> [a + pos_tol, b + pos_tol, c + pos_tol] ! i)"
      using that by (intro within_box_nth) simp_all
    also have "\<dots> \<longleftrightarrow> (\<forall>i<3. [a, b, c] ! i - pos_tol \<le> q ! i \<and> q ! i \<le> [a, b, c] ! i + pos_tol)"
      by (simp add: numeral_3_eq_3 less_Suc_eq all_conj_distrib)
    finally show ?thesis .
  qed
  have self: "within_box ?c [a, b, c]"
    using tol by (simp add: within_box_def)
  show ?thesis
    unfolding R p using box self by simp
qed

text \<open>
  The theorem at a concrete input: a seven-joint IK object with no position constraint
  yet, the target \<open>(0.4, 0, 1.2)\<close> and the tolerance \<open>0.001\<close>. The target is inside the
  box, and the position \<open>(0.4, 0.002, 1.2)\<close> is outside.
\<close>

theorem ik_program_position_box_witness:
  "ik_program (\<lambda>_::unit. \<lparr>ik_q = [0::nat, 1, 2, 3, 4, 5, 6], ik_position_constraints = []\<rparr>) ()
      ''iiwa_link_ee'' ''world'' [4/10, 0, 12/10 :: real] (1/1000)
    = ([0, 1, 2, 3, 4, 5, 6],
       \<lparr>ik_q = [0, 1, 2, 3, 4, 5, 6],
        ik_position_constraints =
          [\<lparr>frameB = ''iiwa_link_ee'', p_BQ = [0, 0, 0], frameA = ''world'',
            p_AQ_lower = [399/1000, -1/1000, 1199/1000],
            p_AQ_upper = [401/1000, 1/1000, 1201/1000]\<rparr>]\<rparr>)
   \<and> within_box \<lparr>frameB = ''iiwa_link_ee'', p_BQ = [0, 0, 0], frameA = ''world'',
            p_AQ_lower = [399/1000, -1/1000, 1199/1000],
            p_AQ_upper = [401/1000, 1/1000, 1201/1000 :: real]\<rparr> [4/10, 0, 12/10]
   \<and> \<not> within_box \<lparr>frameB = ''iiwa_link_ee'', p_BQ = [0, 0, 0], frameA = ''world'',
            p_AQ_lower = [399/1000, -1/1000, 1199/1000],
            p_AQ_upper = [401/1000, 1/1000, 1201/1000 :: real]\<rparr> [4/10, 2/1000, 12/10]"
  using ik_program_position_box [of "1/1000 :: real" "[4/10, 0, 12/10]"
      "\<lambda>_::unit. \<lparr>ik_q = [0::nat, 1, 2, 3, 4, 5, 6], ik_position_constraints = []\<rparr>" "()"
      "''iiwa_link_ee''" "''world''"]
  by (simp add: prod_eq_iff within_box_def)

subsection \<open>Forward kinematics and the round trip\<close>

text \<open>
  \<^verbatim>\<open>compute_forward_kinematics\<close> returns exactly when its four library calls return,
  and raises exactly the exception of the first call that raises: it adds no failure of
  its own and hides none.
\<close>

lemma compute_forward_kinematics_returns_iff:
  "compute_forward_kinematics lib world_frame ee_frame plant q = Inr T \<longleftrightarrow>
     (\<exists>context context' T_W_EE.
        CreateDefaultContext lib plant = Inr context
      \<and> SetPositions lib plant context q = Inr context'
      \<and> CalcRelativeTransform lib plant context' world_frame ee_frame = Inr T_W_EE
      \<and> matrix lib T_W_EE = Inr T)"
  by (auto simp: compute_forward_kinematics_def split: sum.splits)

lemma compute_forward_kinematics_raises_SetPositions:
  assumes "CreateDefaultContext lib plant = Inr context"
    and "SetPositions lib plant context q = Inl e"
  shows "compute_forward_kinematics lib world_frame ee_frame plant q = Inl e"
  using assms by (simp add: compute_forward_kinematics_def)

lemma compute_forward_kinematics_raises_iff:
  "compute_forward_kinematics lib world_frame ee_frame plant q = Inl e \<longleftrightarrow>
     CreateDefaultContext lib plant = Inl e
   \<or> (\<exists>context. CreateDefaultContext lib plant = Inr context \<and>
        (SetPositions lib plant context q = Inl e
       \<or> (\<exists>context'. SetPositions lib plant context q = Inr context' \<and>
            (CalcRelativeTransform lib plant context' world_frame ee_frame = Inl e
           \<or> (\<exists>T_W_EE. CalcRelativeTransform lib plant context' world_frame ee_frame = Inr T_W_EE
                 \<and> matrix lib T_W_EE = Inl e)))))"
  by (auto simp: compute_forward_kinematics_def split: sum.splits)

text \<open>The set-up as one record update.\<close>

lemma ik_program_eq:
  "ik_program InverseKinematics plant ee_frame world_frame p_WF pos_tol =
     (ik_q (InverseKinematics plant),
      (InverseKinematics plant)\<lparr>ik_position_constraints :=
         ik_position_constraints (InverseKinematics plant) @
           [\<lparr>frameB = ee_frame, p_BQ = replicate 3 0, frameA = world_frame,
             p_AQ_lower = map (\<lambda>x. x - pos_tol) p_WF,
             p_AQ_upper = map (\<lambda>x. x + pos_tol) p_WF\<rparr>]\<rparr>)"
  by (simp add: ik_program_def AddPositionConstraint_def Let_def np_zeros_def
      np_sub_scalar_def np_add_scalar_def)

lemma within_band_iff:
  fixes pos_tol :: "'a::linordered_ab_group_add"
  assumes "length p = length p_WF"
  shows "within_box \<lparr>frameB = fB, p_BQ = z, frameA = fA,
             p_AQ_lower = map (\<lambda>x. x - pos_tol) p_WF,
             p_AQ_upper = map (\<lambda>x. x + pos_tol) p_WF\<rparr> p
         \<longleftrightarrow> (\<forall>i<length p_WF. p_WF ! i - pos_tol \<le> p ! i \<and> p ! i \<le> p_WF ! i + pos_tol)"
proof -
  have "within_box \<lparr>frameB = fB, p_BQ = z, frameA = fA,
             p_AQ_lower = map (\<lambda>x. x - pos_tol) p_WF,
             p_AQ_upper = map (\<lambda>x. x + pos_tol) p_WF\<rparr> p
      \<longleftrightarrow> (\<forall>i<length p_WF. map (\<lambda>x. x - pos_tol) p_WF ! i \<le> p ! i
                           \<and> p ! i \<le> map (\<lambda>x. x + pos_tol) p_WF ! i)"
    using assms by (intro within_box_nth) simp_all
  also have "\<dots> \<longleftrightarrow> (\<forall>i<length p_WF. p_WF ! i - pos_tol \<le> p ! i \<and> p ! i \<le> p_WF ! i + pos_tol)"
    by simp
  finally show ?thesis .
qed

text \<open>
  The round trip is feasible: when the target is taken from forward kinematics at \<open>q\<close>
  and the tolerance is not negative, \<open>q\<close> itself meets the position constraint. With a
  negative tolerance no configuration does.
\<close>

lemma roundtrip_feasible:
  fixes pos_tol :: "'a::linordered_ab_group_add"
  assumes tol: "0 \<le> pos_tol"
    and fk: "compute_forward_kinematics lib world_frame ee_frame plant q = Inr T_W_E"
  shows "fk_position_within lib world_frame ee_frame plant
           (last (ik_position_constraints
              (snd (setup_ik_cell InverseKinematics plant ee_frame world_frame T_W_E pos_tol)))) q"
  using tol
  by (simp add: fk_position_within_def fk setup_ik_cell_def ik_program_eq within_band_iff)

lemma roundtrip_empty_box:
  fixes pos_tol :: "'a::linordered_ab_group_add"
  assumes tol: "pos_tol < 0" and rows: "3 \<le> length T_W_E"
  shows "\<not> fk_position_within lib world_frame ee_frame plant
           (last (ik_position_constraints
              (snd (setup_ik_cell InverseKinematics plant ee_frame world_frame T_W_E pos_tol)))) q'"
proof
  assume "fk_position_within lib world_frame ee_frame plant
           (last (ik_position_constraints
              (snd (setup_ik_cell InverseKinematics plant ee_frame world_frame T_W_E pos_tol)))) q'"
  then obtain T where T: "within_box \<lparr>frameB = ee_frame, p_BQ = replicate 3 0, frameA = world_frame,
             p_AQ_lower = map (\<lambda>x. x - pos_tol) (slice_3_3 T_W_E),
             p_AQ_upper = map (\<lambda>x. x + pos_tol) (slice_3_3 T_W_E)\<rparr> (slice_3_3 T)"
    by (auto simp: fk_position_within_def setup_ik_cell_def ik_program_eq split: sum.splits)
  then have len: "length (slice_3_3 T) = length (slice_3_3 T_W_E)"
    by (auto simp: within_box_def dest: list_all2_lengthD)
  from T have "\<forall>i<length (slice_3_3 T_W_E).
      slice_3_3 T_W_E ! i - pos_tol \<le> slice_3_3 T ! i \<and> slice_3_3 T ! i \<le> slice_3_3 T_W_E ! i + pos_tol"
    by (simp add: within_band_iff [OF len])
  moreover have "0 < length (slice_3_3 T_W_E)"
    using rows by (simp add: length_slice_3_3)
  ultimately have "slice_3_3 T_W_E ! 0 - pos_tol \<le> slice_3_3 T_W_E ! 0 + pos_tol"
    by (meson order_trans)
  with tol show False by simp
qed

section \<open>Properties of the programs\<close>

text \<open>The programs the cells build, as values.\<close>

lemma lp_cell_eq:
  "lp_cell = \<lparr>n_vars = 1, costs = [Mul (Var 0) (Num 1)],
              constraints = [GreaterEq (Var 0) (Num 1)], initial_guess = None\<rparr>"
  by (simp add: lp_cell_def MathematicalProgram_def NewContinuousVariables_def
      AddLinearCost_def AddLinearConstraint_def)

text \<open>The automatic solver and IPOPT are given the same program.\<close>

lemma lp_ipopt_cell_same: "lp_ipopt_cell = lp_cell"
  by (simp add: lp_ipopt_cell_def lp_cell_def)

lemma lp_unconstrained_cell_eq:
  "lp_unconstrained_cell = \<lparr>n_vars = 1, costs = [Mul (Var 0) (Num 1)],
              constraints = [], initial_guess = None\<rparr>"
  by (simp add: lp_unconstrained_cell_def MathematicalProgram_def NewContinuousVariables_def
      AddLinearCost_def)

lemma lp_upper_bound_cell_eq:
  "lp_upper_bound_cell = \<lparr>n_vars = 1, costs = [Mul (Var 0) (Num 1)],
              constraints = [LessEq (Var 0) (Num 1)], initial_guess = None\<rparr>"
  by (simp add: lp_upper_bound_cell_def MathematicalProgram_def NewContinuousVariables_def
      AddLinearCost_def AddLinearConstraint_def)

lemma qp_cell_eq:
  "qp_cell = \<lparr>n_vars = 1, costs = [Pow (Sub (Var 0) (Num 3)) 2],
              constraints = [], initial_guess = None\<rparr>"
  by (simp add: qp_cell_def MathematicalProgram_def NewContinuousVariables_def
      AddQuadraticCost_def)

lemma nlp_cell_eq:
  "nlp_cell = \<lparr>n_vars = 2, costs = [Add (Var 0) (Var 1)],
              constraints = [Equal (Add (Pow (Var 0) 2) (Pow (Var 1) 2)) (Num 1)],
              initial_guess = Some [- (1/2), - (1/2)]\<rparr>"
  by (simp add: nlp_cell_def MathematicalProgram_def NewContinuousVariables_def
      AddLinearCost_def AddConstraint_def SetInitialGuessForAllVariables_def upt_rec)

lemma length_1_conv: "length v = Suc 0 \<longleftrightarrow> (\<exists>a. v = [a])"
  by (cases v) auto

lemma length_2_conv: "length v = 2 \<longleftrightarrow> (\<exists>a b. v = [a, b])"
  by (auto simp: length_Suc_conv numeral_2_eq_2)

text \<open>
  \<open>minimise x subject to x \<ge> 1\<close>: the only minimum is \<open>x = 1\<close>.
\<close>

lemma lp_cell_feasible: "feasible lp_cell v \<longleftrightarrow> (\<exists>a. v = [a] \<and> 1 \<le> a)"
  by (auto simp: feasible_def lp_cell_eq length_1_conv)

lemma lp_cell_minimum: "is_minimum lp_cell v \<longleftrightarrow> v = [1]"
proof
  assume m: "is_minimum lp_cell v"
  then obtain a where v: "v = [a]" "1 \<le> a"
    by (auto simp: is_minimum_def lp_cell_feasible)
  have "feasible lp_cell [1]" by (simp add: lp_cell_feasible)
  with m have "objective lp_cell v \<le> objective lp_cell [1]"
    by (simp add: is_minimum_def)
  then have "a \<le> 1" by (simp add: v objective_def lp_cell_eq)
  with v show "v = [1]" by simp
next
  assume v: "v = [1]"
  have "objective lp_cell [1] \<le> objective lp_cell w" if "feasible lp_cell w" for w
  proof -
    from that obtain a where "w = [a]" "1 \<le> a"
      by (auto simp: lp_cell_feasible)
    then show ?thesis by (simp add: objective_def lp_cell_eq)
  qed
  moreover have "feasible lp_cell [1]" by (simp add: lp_cell_feasible)
  ultimately show "is_minimum lp_cell v"
    by (simp add: is_minimum_def v)
qed

text \<open>
  Without a constraint, and with the constraint \<open>x \<le> 1\<close>, the linear cost has no lower
  bound, hence no minimum.
\<close>

lemma lp_unconstrained_unbounded: "unbounded_below lp_unconstrained_cell"
  unfolding unbounded_below_def
proof
  fix M :: real
  have "feasible lp_unconstrained_cell [M - 1] \<and> objective lp_unconstrained_cell [M - 1] < M"
    by (simp add: feasible_def objective_def lp_unconstrained_cell_eq)
  then show "\<exists>v. feasible lp_unconstrained_cell v \<and> objective lp_unconstrained_cell v < M" ..
qed

lemma lp_upper_bound_unbounded: "unbounded_below lp_upper_bound_cell"
  unfolding unbounded_below_def
proof
  fix M :: real
  have "feasible lp_upper_bound_cell [min M 1 - 1] \<and> objective lp_upper_bound_cell [min M 1 - 1] < M"
    by (simp add: feasible_def objective_def lp_upper_bound_cell_eq min_def)
  then show "\<exists>v. feasible lp_upper_bound_cell v \<and> objective lp_upper_bound_cell v < M" ..
qed

lemma unbounded_no_minimum: "unbounded_below mp \<Longrightarrow> \<not> is_minimum mp v"
  unfolding unbounded_below_def is_minimum_def
  by (metis not_le)

text \<open>\<open>minimise (x - 3)\<^sup>2\<close>: the only minimum is \<open>x = 3\<close>.\<close>

lemma qp_cell_minimum: "is_minimum qp_cell v \<longleftrightarrow> v = [3]"
proof
  assume m: "is_minimum qp_cell v"
  then obtain a where v: "v = [a]"
    by (auto simp: is_minimum_def feasible_def qp_cell_eq length_1_conv)
  have "feasible qp_cell [3]" by (simp add: feasible_def qp_cell_eq)
  with m have "objective qp_cell v \<le> objective qp_cell [3]"
    by (simp add: is_minimum_def)
  then have "(a - 3)\<^sup>2 \<le> 0" by (simp add: v objective_def qp_cell_eq)
  then have "a = 3" by simp
  with v show "v = [3]" by simp
next
  assume "v = [3]"
  then show "is_minimum qp_cell v"
    by (simp add: is_minimum_def feasible_def objective_def qp_cell_eq)
qed

text \<open>
  \<open>minimise x\<^sub>0 + x\<^sub>1\<close> on the unit circle: the only minimum is
  \<open>x\<^sub>0 = x\<^sub>1 = - \<surd>2 / 2\<close>. Neither the initial guess of the cell nor \<open>(0, 0)\<close> is
  feasible.
\<close>

lemma nlp_cell_feasible: "feasible nlp_cell v \<longleftrightarrow> (\<exists>a b. v = [a, b] \<and> a\<^sup>2 + b\<^sup>2 = 1)"
  by (auto simp: feasible_def nlp_cell_eq length_2_conv)

lemma nlp_objective: "objective nlp_cell [a, b] = a + b"
  by (simp add: objective_def nlp_cell_eq)

lemma circle_sum_lower:
  fixes a b :: real
  assumes "a\<^sup>2 + b\<^sup>2 = 1"
  shows "- sqrt 2 \<le> a + b"
proof -
  have "(a + b)\<^sup>2 = 2 - (a - b)\<^sup>2"
    using assms by (simp add: power2_eq_square algebra_simps)
  then have "(a + b)\<^sup>2 \<le> 2" by simp
  then have "\<bar>a + b\<bar> \<le> sqrt 2"
    by (metis real_sqrt_abs real_sqrt_le_iff)
  then show ?thesis by linarith
qed

lemma nlp_cell_minimum:
  "is_minimum nlp_cell v \<longleftrightarrow> v = [- (sqrt 2 / 2), - (sqrt 2 / 2)]"
proof
  let ?s = "sqrt 2 / 2"
  have s2: "?s\<^sup>2 = 1 / 2" by (simp add: power_divide)
  have feas: "feasible nlp_cell [- ?s, - ?s]"
    using s2 by (simp add: nlp_cell_feasible)
  {
    assume m: "is_minimum nlp_cell v"
    then obtain a b where v: "v = [a, b]" and c: "a\<^sup>2 + b\<^sup>2 = 1"
      by (auto simp: is_minimum_def nlp_cell_feasible)
    from m feas have "objective nlp_cell v \<le> objective nlp_cell [- ?s, - ?s]"
      by (simp add: is_minimum_def)
    then have "a + b \<le> - sqrt 2" by (simp add: v nlp_objective)
    with circle_sum_lower [OF c] have sum: "a + b = - sqrt 2" by simp
    have "(a - b)\<^sup>2 = 2 - (a + b)\<^sup>2"
      using c by (simp add: power2_eq_square algebra_simps)
    also have "\<dots> = 0" by (simp add: sum)
    finally have "a = b" by simp
    with sum have "a = - ?s" "b = - ?s" by simp_all
    with v show "v = [- ?s, - ?s]" by simp
  }
  {
    assume "v = [- ?s, - ?s]"
    moreover have "objective nlp_cell [- ?s, - ?s] \<le> objective nlp_cell w" if "feasible nlp_cell w" for w
    proof -
      from that obtain a b where w: "w = [a, b]" and c: "a\<^sup>2 + b\<^sup>2 = 1"
        by (auto simp: nlp_cell_feasible)
      show ?thesis using circle_sum_lower [OF c] by (simp add: w nlp_objective)
    qed
    ultimately show "is_minimum nlp_cell v"
      using feas by (simp add: is_minimum_def)
  }
qed

lemma nlp_initial_guesses:
  "initial_guess nlp_cell = Some [- (1/2), - (1/2)]"
  "\<not> feasible nlp_cell [- (1/2), - (1/2)]"
  "\<not> feasible nlp_cell [0, 0]"
  by (simp_all add: nlp_cell_eq feasible_def power2_eq_square)

end
